theory Spec2Isabelle
  imports Complex_Main "HOL-Library.Log_Nat"
begin

section \<open>The relational store\<close>

text \<open>
  Modelled from the spec: the persisted schema (the Prisma schema file is not among the
  sources). Section 6 of the specification gives
  \<^verbatim>\<open>User(user_id PK, clerk_id UNIQUE, email, name, stripe_customer_id NULLABLE)\<close> and
  \<^verbatim>\<open>Payment(payment_id PK, user_id FK, stripe_payment_id, amount DECIMAL, currency, status)\<close>;
  section 5 adds that the billing-customer reference is unique as well (the webhook looks
  users up by it with \<^verbatim>\<open>findUnique\<close>). Surrogate keys are assigned by the store and are
  natural numbers here; a DECIMAL is a rational number. The Payment column \<^verbatim>\<open>user_id\<close> is the field \<open>payment_user_id\<close>,
  since a record field name is global.
\<close>

record user =
  user_id :: nat
  clerk_id :: string
  email :: string
  name :: string
  stripe_customer_id :: "string option"

record payment =
  payment_id :: nat
  payment_user_id :: nat
  stripe_payment_id :: string
  amount :: rat
  currency :: string
  status :: string

text \<open>
  Every call the handlers make to the store or to the payment provider is recorded in
  order, so that "no write occurs" and "no provider call is made" are statements about
  the state.
\<close>

datatype call =
    UserFindUniqueByClerkId string
  | UserFindUniqueByStripeCustomerId string
  | UserCreate string string string
  | UserUpdateStripeCustomerId string string
  | PaymentFindFirstByClerkId string
  | PaymentCreate "string option" nat rat "string option" string
  | StripeCustomersCreate string

record world =
  users :: "user list"
  payments :: "payment list"
  calls :: "call list"

datatype error =
    Error string
  | StripeError string
  | UniqueConstraintFailed string
  | RecordNotFound
  | ForeignKeyConstraintFailed string
  | ValidationError string

definition record_call :: "call \<Rightarrow> world \<Rightarrow> world" where
  "record_call c w = w\<lparr>calls := calls w @ [c]\<rparr>"

definition next_id :: "nat list \<Rightarrow> nat" where
  "next_id ids = Suc (fold max ids 0)"

subsection \<open>JavaScript values\<close>

text \<open>
  \<^verbatim>\<open>!v\<close> for a value that is a string, \<^verbatim>\<open>null\<close> or \<^verbatim>\<open>undefined\<close>: the empty string is
  falsy too. \<^verbatim>\<open>v ?? d\<close> replaces only \<^verbatim>\<open>null\<close> and \<^verbatim>\<open>undefined\<close>. \<^verbatim>\<open>String(v)\<close> of
  \<^verbatim>\<open>null\<close> is the text \<^verbatim>\<open>null\<close>.
\<close>

definition falsy :: "string option \<Rightarrow> bool" where
  "falsy v = (case v of None \<Rightarrow> True | Some s \<Rightarrow> s = [])"

definition nullish :: "'a option \<Rightarrow> 'a \<Rightarrow> 'a" where
  "nullish v d = (case v of None \<Rightarrow> d | Some x \<Rightarrow> x)"

definition String :: "string option \<Rightarrow> string" where
  "String v = (case v of None \<Rightarrow> ''null'' | Some s \<Rightarrow> s)"

subsection \<open>JavaScript numbers\<close>

text \<open>
  A JavaScript number is an IEEE-754 binary64 value; a finite one is modelled by its exact
  rational value. \<open>binary64\<close> rounds a rational to the nearest value with a 53-bit
  significand, ties to the even significand: this is what parsing a JSON integer
  (\<open>number_of_int\<close>) and the operator \<^verbatim>\<open>/\<close> (\<open>number_div\<close>) do. The exponent range is not
  modelled (no overflow to infinity, no subnormal numbers): amounts in minor units and
  their quotients by 100 are far from both. The divisor of the only division in the
  sources is the literal 100.
\<close>

definition round_half_even :: "rat \<Rightarrow> int" where
  "round_half_even x =
     (let f = \<lfloor>x\<rfloor>; d = x - of_int f in
      if d < 1 / 2 then f else if 1 / 2 < d then f + 1 else if even f then f else f + 1)"

definition binary64 :: "rat \<Rightarrow> rat" where
  "binary64 x =
     (if x = 0 then 0
      else
        (case quotient_of \<bar>x\<bar> of (p, q) \<Rightarrow>
           (let k = bitlen p - bitlen q;
                e = (if 2 powi k \<le> \<bar>x\<bar> then k else k - 1);
                m = round_half_even (\<bar>x\<bar> / 2 powi (e - 52))
            in sgn x * of_int m * 2 powi (e - 52))))"

definition number_of_int :: "int \<Rightarrow> rat" where
  "number_of_int a = binary64 (of_int a)"

definition number_div :: "rat \<Rightarrow> rat \<Rightarrow> rat" where
  "number_div x y = binary64 (x / y)"

subsection \<open>Store operations\<close>

text \<open>
  Modelled from the spec: the constraints of the schema above, which the store enforces
  when the handlers write. Creating a User with a \<open>clerk_id\<close> already present, or setting
  a \<open>stripe_customer_id\<close> that another row carries, fails with a unique-constraint
  error; updating a row that does not exist fails; a Payment whose \<open>user_id\<close> names no
  User fails the foreign key. \<^verbatim>\<open>findUnique\<close> and \<^verbatim>\<open>findFirst\<close> return the first matching
  row in the store's order, or nothing. Each operation records its call, also when it
  fails.
\<close>

definition user_findUnique_clerk_id :: "string \<Rightarrow> world \<Rightarrow> user option \<times> world" where
  "user_findUnique_clerk_id clerkId w =
     (find (\<lambda>u. clerk_id u = clerkId) (users w),
      record_call (UserFindUniqueByClerkId clerkId) w)"

definition user_findUnique_stripe_customer_id :: "string \<Rightarrow> world \<Rightarrow> user option \<times> world" where
  "user_findUnique_stripe_customer_id customerId w =
     (find (\<lambda>u. stripe_customer_id u = Some customerId) (users w),
      record_call (UserFindUniqueByStripeCustomerId customerId) w)"

definition user_create :: "string \<Rightarrow> string \<Rightarrow> string \<Rightarrow> world \<Rightarrow> (error + unit) \<times> world" where
  "user_create clerkId email' name' w =
     (let w1 = record_call (UserCreate clerkId email' name') w in
      if find (\<lambda>u. clerk_id u = clerkId) (users w) \<noteq> None
      then (Inl (UniqueConstraintFailed ''clerk_id''), w1)
      else (Inr (),
            w1\<lparr>users := users w @
              [\<lparr>user_id = next_id (map user_id (users w)), clerk_id = clerkId,
                email = email', name = name', stripe_customer_id = None\<rparr>]\<rparr>))"

definition user_update_stripe_customer_id ::
  "string \<Rightarrow> string \<Rightarrow> world \<Rightarrow> (error + unit) \<times> world" where
  "user_update_stripe_customer_id clerkId customerId w =
     (let w1 = record_call (UserUpdateStripeCustomerId clerkId customerId) w in
      if find (\<lambda>u. clerk_id u = clerkId) (users w) = None
      then (Inl RecordNotFound, w1)
      else if find (\<lambda>u. stripe_customer_id u = Some customerId \<and> clerk_id u \<noteq> clerkId) (users w)
              \<noteq> None
      then (Inl (UniqueConstraintFailed ''stripe_customer_id''), w1)
      else (Inr (),
            w1\<lparr>users :=
              map (\<lambda>u. if clerk_id u = clerkId then u\<lparr>stripe_customer_id := Some customerId\<rparr> else u)
                (users w)\<rparr>))"

definition payment_user :: "world \<Rightarrow> payment \<Rightarrow> user option" where
  "payment_user w p = find (\<lambda>u. user_id u = payment_user_id p) (users w)"

definition owned_by :: "world \<Rightarrow> string \<Rightarrow> payment \<Rightarrow> bool" where
  "owned_by w clerkId p =
     (case payment_user w p of None \<Rightarrow> False | Some u \<Rightarrow> clerk_id u = clerkId)"

definition payment_findFirst_clerk_id :: "string \<Rightarrow> world \<Rightarrow> payment option \<times> world" where
  "payment_findFirst_clerk_id clerkId w =
     (find (owned_by w clerkId) (payments w),
      record_call (PaymentFindFirstByClerkId clerkId) w)"

text \<open>
  Modelled from the spec: \<^verbatim>\<open>stripe_payment_id\<close> and \<^verbatim>\<open>currency\<close> are required columns
  (only \<^verbatim>\<open>stripe_customer_id\<close> is nullable), so a \<^verbatim>\<open>create\<close> that is handed \<^verbatim>\<open>null\<close> for
  one of them is rejected and writes nothing. The handler hands a JavaScript number for
  the DECIMAL column \<^verbatim>\<open>amount\<close>; how the client and the column's precision and scale turn
  the number into the stored decimal is not in the sources, and is the parameter
  \<open>toDecimal\<close>.
\<close>

definition payment_create ::
  "(rat \<Rightarrow> rat) \<Rightarrow> string option \<Rightarrow> nat \<Rightarrow> rat \<Rightarrow> string option \<Rightarrow> string \<Rightarrow> world \<Rightarrow>
   (error + unit) \<times> world" where
  "payment_create toDecimal paymentId userId amount' currency' status' w =
     (let w1 = record_call (PaymentCreate paymentId userId amount' currency' status') w in
      case paymentId of
        None \<Rightarrow> (Inl (ValidationError ''stripe_payment_id''), w1)
      | Some pid \<Rightarrow>
          (case currency' of
             None \<Rightarrow> (Inl (ValidationError ''currency''), w1)
           | Some cur \<Rightarrow>
               if find (\<lambda>u. user_id u = userId) (users w) = None
               then (Inl (ForeignKeyConstraintFailed ''user_id''), w1)
               else (Inr (),
                     w1\<lparr>payments := payments w @
                       [\<lparr>payment_id = next_id (map payment_id (payments w)),
                         payment_user_id = userId, stripe_payment_id = pid,
                         amount = toDecimal amount', currency = cur,
                         status = status'\<rparr>]\<rparr>)))"

subsection \<open>The payment provider\<close>

text \<open>
  \<^verbatim>\<open>stripe.customers.create({email})\<close> is an external call: its outcome (a failure, or
  the id of the customer it created) is a parameter of the handlers.
\<close>

definition stripe_customers_create ::
  "(string \<Rightarrow> error + string) \<Rightarrow> string \<Rightarrow> world \<Rightarrow> (error + string) \<times> world" where
  "stripe_customers_create provider email' w =
     (provider email', record_call (StripeCustomersCreate email') w)"

section \<open>Lazy customer provisioning (app/dashboard/layout.tsx)\<close>

definition getData ::
  "(string \<Rightarrow> error + string) \<Rightarrow> string \<Rightarrow> string \<Rightarrow> string option \<Rightarrow> string option \<Rightarrow>
   string option \<Rightarrow> world \<Rightarrow> (error + unit) \<times> world" where
  "getData provider email' clerkId firstName' lastName' profileImage w =
     (case user_findUnique_clerk_id clerkId w of (user0, w1) \<Rightarrow>
      (case (case user0 of
               None \<Rightarrow>
                 (case user_create clerkId email'
                         (nullish firstName' [] @ '' '' @ nullish lastName' []) w1 of
                    (Inl e, w2) \<Rightarrow> (Inl e, w2)
                  | (Inr _, w2) \<Rightarrow>
                      (case user_findUnique_clerk_id clerkId w2 of (u, w3) \<Rightarrow> (Inr u, w3)))
             | Some _ \<Rightarrow> (Inr user0, w1)) of
         (Inl e, w') \<Rightarrow> (Inl e, w')
       | (Inr user1, w') \<Rightarrow>
           if falsy (case user1 of None \<Rightarrow> None | Some u \<Rightarrow> stripe_customer_id u) then
             (case stripe_customers_create provider email' w' of
                (Inl e, w4) \<Rightarrow> (Inl e, w4)
              | (Inr data_id, w4) \<Rightarrow>
                  (case user_update_stripe_customer_id clerkId data_id w4 of
                     (Inl e, w5) \<Rightarrow> (Inl e, w5)
                   | (Inr _, w5) \<Rightarrow>
                       (case user_findUnique_clerk_id clerkId w5 of (u, w6) \<Rightarrow> (Inr (), w6))))
           else (Inr (), w')))"

text \<open>
  The identity provider's view of the signed-in user, as \<^verbatim>\<open>DashboardLayout\<close> reads it:
  \<^verbatim>\<open>emailAddresses\<close> holds the \<^verbatim>\<open>emailAddress\<close> of each entry, and \<open>primary_email\<close>
  is \<^verbatim>\<open>user.emailAddresses[0]?.emailAddress\<close>. After a truthiness check the value is
  present, and \<open>the\<close> reads it.
\<close>

record clerk_user =
  emailAddresses :: "string list"
  firstName :: "string option"
  lastName :: "string option"
  imageUrl :: string

datatype page = Redirect string | DashboardShell | ManageSubscription | OfferPurchase

definition primary_email :: "clerk_user \<Rightarrow> string option" where
  "primary_email cu = (case emailAddresses cu of [] \<Rightarrow> None | e # _ \<Rightarrow> Some e)"

definition DashboardLayout ::
  "(string \<Rightarrow> error + string) \<Rightarrow> string option \<Rightarrow> clerk_user option \<Rightarrow> world \<Rightarrow>
   (error + page) \<times> world" where
  "DashboardLayout provider userId cuser w =
     (if falsy userId \<or> cuser = None then (Inr (Redirect ''/''), w)
      else
        (let email' = primary_email (the cuser);
             firstName' = firstName (the cuser);
             lastName' = lastName (the cuser);
             profileImage = imageUrl (the cuser)
         in if falsy email' then (Inr (Redirect ''/''), w)
            else
              (case getData provider (the email') (the userId) firstName' lastName'
                      (Some profileImage) w of
                 (Inl e, w') \<Rightarrow> (Inl e, w')
               | (Inr _, w') \<Rightarrow> (Inr DashboardShell, w'))))"

section \<open>The billing page\<close>

text \<open>
  The page's own \<^verbatim>\<open>getData(clerkId)\<close>; the \<^verbatim>\<open>select\<close> narrows the row to its status and
  its user's billing-customer reference, of which rendering reads the status only.
\<close>

definition getData_billing :: "string \<Rightarrow> world \<Rightarrow> payment option \<times> world" where
  "getData_billing clerkId w = payment_findFirst_clerk_id clerkId w"

definition BillingPage :: "string option \<Rightarrow> world \<Rightarrow> page \<times> world" where
  "BillingPage userId w =
     (if falsy userId then (Redirect ''/'', w)
      else
        (case getData_billing (the userId) w of (data, w') \<Rightarrow>
           if (case data of None \<Rightarrow> False | Some p \<Rightarrow> status p = ''paid'')
           then (ManageSubscription, w')
           else (OfferPurchase, w')))"

section \<open>Webhook ingestion\<close>

datatype session_mode = Payment | Setup | Subscription

text \<open>
  The fields of \<^verbatim>\<open>Stripe.Checkout.Session\<close> the handler reads. \<^verbatim>\<open>customer\<close>,
  \<^verbatim>\<open>payment_intent\<close>, \<^verbatim>\<open>amount_total\<close> and \<^verbatim>\<open>currency\<close> may be \<^verbatim>\<open>null\<close>: the handler's
  \<^verbatim>\<open>as string\<close> on \<^verbatim>\<open>payment_intent\<close> and \<^verbatim>\<open>currency\<close> checks nothing when it runs, so a
  \<^verbatim>\<open>null\<close> reaches the store as it is. \<^verbatim>\<open>amount_total\<close> is an integer of minor units.
\<close>

record session =
  mode :: session_mode
  customer :: "string option"
  payment_intent :: "string option"
  amount_total :: "int option"
  session_currency :: "string option"
  payment_status :: string

record event =
  event_type :: string
  data_object :: session

record request =
  body :: string
  stripe_signature :: "string option"

record response =
  response_body :: "string option"
  response_status :: nat

text \<open>
  \<^verbatim>\<open>stripe.webhooks.constructEvent(body, signature, secret)\<close> is the provider library's
  signature check: a parameter, \<open>None\<close> when it throws. \<open>toDecimal\<close> is the store's
  conversion for the DECIMAL column.
\<close>

definition POST ::
  "(string \<Rightarrow> string option \<Rightarrow> string option \<Rightarrow> event option) \<Rightarrow> (rat \<Rightarrow> rat) \<Rightarrow>
   string option \<Rightarrow> request \<Rightarrow> world \<Rightarrow> (error + response) \<times> world" where
  "POST constructEvent toDecimal secret req w =
     (case constructEvent (body req) (stripe_signature req) secret of
        None \<Rightarrow> (Inr \<lparr>response_body = Some ''Webhook error'', response_status = 400\<rparr>, w)
      | Some ev \<Rightarrow>
          (let session' = data_object ev in
           case (if event_type ev = ''checkout.session.completed'' then
                   (if mode session' = Subscription then (Inr (), w)
                    else if mode session' = Payment then
                      (let customerId = String (customer session') in
                       case user_findUnique_stripe_customer_id customerId w of (user', w1) \<Rightarrow>
                         (case user' of
                            None \<Rightarrow> (Inl (Error ''User not found''), w1)
                          | Some u \<Rightarrow>
                              payment_create toDecimal (payment_intent session') (user_id u)
                                (number_div (number_of_int (nullish (amount_total session') 0))
                                   100)
                                (session_currency session') (payment_status session') w1))
                    else (Inr (), w))
                 else (Inr (), w)) of
             (Inl e, w2) \<Rightarrow> (Inl e, w2)
           | (Inr _, w2) \<Rightarrow>
               (case (if event_type ev = ''invoice.payment_succeeded'' then (Inr (), w2)
                      else (Inr (), w2)) of
                  (Inl e, w3) \<Rightarrow> (Inl e, w3)
                | (Inr (_ :: unit), w3) \<Rightarrow>
                    (Inr \<lparr>response_body = None, response_status = 200\<rparr>, w3))))"

section \<open>Example states\<close>

text \<open>
  A store with one provisioned user, an empty store, a completed one-time-payment session
  (the scenario of the specification: 4000 minor units, usd, paid, customer cus_123), a
  completed session that needed no payment and so carries no payment intent, and a
  signature check that accepts and yields a given event.
\<close>

definition demo_user :: user where
  "demo_user = \<lparr>user_id = 1, clerk_id = ''u_1'', email = ''a@b.com'', name = ''A B'',
                 stripe_customer_id = Some ''cus_123''\<rparr>"

definition demo_world :: world where
  "demo_world = \<lparr>users = [demo_user], payments = [], calls = []\<rparr>"

definition empty_world :: world where
  "empty_world = \<lparr>users = [], payments = [], calls = []\<rparr>"

definition demo_session :: session where
  "demo_session = \<lparr>mode = Payment, customer = Some ''cus_123'', payment_intent = Some ''pi_1'',
                    amount_total = Some 4000, session_currency = Some ''usd'',
                    payment_status = ''paid''\<rparr>"

definition free_session :: session where
  "free_session = \<lparr>mode = Payment, customer = Some ''cus_123'', payment_intent = None,
                    amount_total = Some 0, session_currency = Some ''usd'',
                    payment_status = ''no_payment_required''\<rparr>"

definition demo_request :: request where
  "demo_request = \<lparr>body = ''{}'', stripe_signature = Some ''t=1,v1=00''\<rparr>"

definition accept :: "event \<Rightarrow> string \<Rightarrow> string option \<Rightarrow> string option \<Rightarrow> event option" where
  "accept ev b s k = Some ev"

definition unpaid_row :: payment where
  "unpaid_row = \<lparr>payment_id = 1, payment_user_id = 1, stripe_payment_id = ''pi_1'',
                  amount = 40, currency = ''usd'', status = ''unpaid''\<rparr>"

definition paid_row :: payment where
  "paid_row = \<lparr>payment_id = 2, payment_user_id = 1, stripe_payment_id = ''pi_2'',
                amount = 40, currency = ''usd'', status = ''paid''\<rparr>"

section \<open>Auxiliary facts\<close>

text \<open>First-match search: the row found is in the list, and everything before it fails the test.\<close>

lemmas demo_defs = demo_user_def demo_world_def empty_world_def demo_session_def
  free_session_def demo_request_def
  accept_def unpaid_row_def paid_row_def

lemma find_Some_in_set: "find P xs = Some x \<Longrightarrow> x \<in> set xs \<and> P x"
  by (induction xs) (auto split: if_splits)

lemma find_Some_split:
  "find P xs = Some x \<longleftrightarrow> (\<exists>ys zs. xs = ys @ x # zs \<and> P x \<and> (\<forall>y\<in>set ys. \<not> P y))"
proof (induction xs)
  case Nil
  then show ?case by simp
next
  case (Cons a xs)
  show ?case
  proof (cases "P a")
    case True
    have "(\<exists>ys zs. a # xs = ys @ x # zs \<and> P x \<and> (\<forall>y\<in>set ys. \<not> P y)) \<longleftrightarrow> a = x"
    proof
      assume "\<exists>ys zs. a # xs = ys @ x # zs \<and> P x \<and> (\<forall>y\<in>set ys. \<not> P y)"
      then obtain ys zs where h: "a # xs = ys @ x # zs" "\<forall>y\<in>set ys. \<not> P y" by blast
      show "a = x"
      proof (cases ys)
        case Nil
        with h show ?thesis by simp
      next
        case (Cons b bs)
        with h True show ?thesis by auto
      qed
    next
      assume "a = x"
      with True have "a # xs = [] @ x # xs \<and> P x \<and> (\<forall>y\<in>set []. \<not> P y)" by simp
      then show "\<exists>ys zs. a # xs = ys @ x # zs \<and> P x \<and> (\<forall>y\<in>set ys. \<not> P y)" by blast
    qed
    with True show ?thesis by simp
  next
    case False
    have "(\<exists>ys zs. a # xs = ys @ x # zs \<and> P x \<and> (\<forall>y\<in>set ys. \<not> P y)) \<longleftrightarrow>
          (\<exists>ys zs. xs = ys @ x # zs \<and> P x \<and> (\<forall>y\<in>set ys. \<not> P y))"
    proof
      assume "\<exists>ys zs. a # xs = ys @ x # zs \<and> P x \<and> (\<forall>y\<in>set ys. \<not> P y)"
      then obtain ys zs where h: "a # xs = ys @ x # zs" "P x" "\<forall>y\<in>set ys. \<not> P y" by blast
      show "\<exists>ys zs. xs = ys @ x # zs \<and> P x \<and> (\<forall>y\<in>set ys. \<not> P y)"
      proof (cases ys)
        case Nil
        with h False show ?thesis by simp
      next
        case (Cons b bs)
        with h have "xs = bs @ x # zs \<and> P x \<and> (\<forall>y\<in>set bs. \<not> P y)" by simp
        then show ?thesis by blast
      qed
    next
      assume "\<exists>ys zs. xs = ys @ x # zs \<and> P x \<and> (\<forall>y\<in>set ys. \<not> P y)"
      then obtain ys zs where h: "xs = ys @ x # zs" "P x" "\<forall>y\<in>set ys. \<not> P y" by blast
      with False have "a # xs = (a # ys) @ x # zs \<and> P x \<and> (\<forall>y\<in>set (a # ys). \<not> P y)" by simp
      then show "\<exists>ys zs. a # xs = ys @ x # zs \<and> P x \<and> (\<forall>y\<in>set ys. \<not> P y)" by blast
    qed
    with False Cons.IH show ?thesis by simp
  qed
qed

lemma find_app:
  "find P (xs @ ys) = (case find P xs of None \<Rightarrow> find P ys | Some x \<Rightarrow> Some x)"
  by (induction xs) simp_all










lemma number_div_4000: "number_div (number_of_int 4000) 100 = 40"
  by code_simp



text \<open>
  One delivery of a completed one-time-payment session for a known customer, when the
  session carries a payment intent and a currency: the response, the row appended and the
  two calls made.
\<close>

lemma POST_payment_step:
  assumes ev: "constructEvent (body req) (stripe_signature req) secret = Some ev"
    and ty: "event_type ev = ''checkout.session.completed''"
    and md: "mode (data_object ev) = Payment"
    and us: "find (\<lambda>u. stripe_customer_id u = Some (String (customer (data_object ev)))) (users w) = Some u"
    and pi: "payment_intent (data_object ev) = Some pid"
    and cu: "session_currency (data_object ev) = Some cur"
  shows "POST constructEvent toDecimal secret req w =
     (Inr \<lparr>response_body = None, response_status = 200\<rparr>,
      w\<lparr>payments := payments w @
           [\<lparr>payment_id = next_id (map payment_id (payments w)),
             payment_user_id = user_id u,
             stripe_payment_id = pid,
             amount = toDecimal
               (number_div (number_of_int (nullish (amount_total (data_object ev)) 0)) 100),
             currency = cur,
             status = payment_status (data_object ev)\<rparr>],
         calls := calls w @
           [UserFindUniqueByStripeCustomerId (String (customer (data_object ev))),
            PaymentCreate (Some pid) (user_id u)
              (number_div (number_of_int (nullish (amount_total (data_object ev)) 0)) 100)
              (Some cur) (payment_status (data_object ev))]\<rparr>)"
proof -
  from us have "u \<in> set (users w)" by (simp add: find_Some_in_set)
  then have fk: "find (\<lambda>v. user_id v = user_id u) (users w) \<noteq> None"
    by (auto simp: find_None_iff)
  show ?thesis
    using ev ty md us fk pi cu
    by (simp add: POST_def user_findUnique_stripe_customer_id_def payment_create_def
        record_call_def Let_def)
qed

text \<open>
  The same delivery when the session carries no payment intent, or no currency: the store
  rejects the row, the handler fails with that error, and both tables are as before.
\<close>

lemma POST_payment_rejected:
  assumes ev: "constructEvent (body req) (stripe_signature req) secret = Some ev"
    and ty: "event_type ev = ''checkout.session.completed''"
    and md: "mode (data_object ev) = Payment"
    and us: "find (\<lambda>u. stripe_customer_id u = Some (String (customer (data_object ev)))) (users w) = Some u"
    and no: "payment_intent (data_object ev) = None \<or> session_currency (data_object ev) = None"
  shows "(\<exists>field. fst (POST constructEvent toDecimal secret req w) = Inl (ValidationError field))
       \<and> users (snd (POST constructEvent toDecimal secret req w)) = users w
       \<and> payments (snd (POST constructEvent toDecimal secret req w)) = payments w"
  using ev ty md us no
  by (cases "payment_intent (data_object ev)"; cases "session_currency (data_object ev)")
     (simp_all add: POST_def user_findUnique_stripe_customer_id_def payment_create_def
        record_call_def Let_def)

text \<open>Whatever is delivered, the User table is untouched and at most one Payment row is appended.\<close>

lemma POST_store:
  "users (snd (POST constructEvent toDecimal secret req w)) = users w \<and>
   (payments (snd (POST constructEvent toDecimal secret req w)) = payments w \<or>
    (\<exists>p. payments (snd (POST constructEvent toDecimal secret req w)) = payments w @ [p]))"
proof (cases "constructEvent (body req) (stripe_signature req) secret")
  case None
  then show ?thesis by (simp add: POST_def)
next
  case (Some ev)
  show ?thesis
  proof (cases "event_type ev = ''checkout.session.completed'' \<and> mode (data_object ev) = Payment")
    case False
    with Some show ?thesis by (auto simp: POST_def Let_def)
  next
    case True
    let ?c = "String (customer (data_object ev))"
    show ?thesis
    proof (cases "find (\<lambda>u. stripe_customer_id u = Some ?c) (users w)")
      case None
      with Some True show ?thesis
        by (simp add: POST_def user_findUnique_stripe_customer_id_def record_call_def Let_def)
    next
      case found: (Some u)
      show ?thesis
      proof (cases "payment_intent (data_object ev) = None \<or> session_currency (data_object ev) = None")
        case True
        from POST_payment_rejected
          [where constructEvent = constructEvent and req = req and secret = secret and ev = ev
             and w = w and u = u and toDecimal = toDecimal]
          Some \<open>event_type ev = ''checkout.session.completed'' \<and> mode (data_object ev) = Payment\<close>
          found True
        show ?thesis by simp
      next
        case False
        then obtain pid cur where "payment_intent (data_object ev) = Some pid"
          "session_currency (data_object ev) = Some cur"
          by auto
        with POST_payment_step
          [where constructEvent = constructEvent and req = req and secret = secret and ev = ev
             and w = w and u = u and toDecimal = toDecimal and pid = pid and cur = cur]
          Some \<open>event_type ev = ''checkout.session.completed'' \<and> mode (data_object ev) = Payment\<close>
          found
        show ?thesis by simp
      qed
    qed
  qed
qed

text \<open>The whole run of provisioning on a first visit, when the provider call succeeds.\<close>

lemma getData_first_visit_step:
  assumes absent: "\<forall>u\<in>set (users w). clerk_id u \<noteq> clerkId"
    and ok: "provider email' = Inr cus"
    and fresh: "\<forall>u\<in>set (users w). stripe_customer_id u \<noteq> Some cus"
  shows "getData provider email' clerkId firstName' lastName' profileImage w =
     (Inr (),
      w\<lparr>users := users w @
           [\<lparr>user_id = next_id (map user_id (users w)), clerk_id = clerkId, email = email',
             name = nullish firstName' [] @ '' '' @ nullish lastName' [],
             stripe_customer_id = Some cus\<rparr>],
         calls := calls w @
           [UserFindUniqueByClerkId clerkId,
            UserCreate clerkId email' (nullish firstName' [] @ '' '' @ nullish lastName' []),
            UserFindUniqueByClerkId clerkId,
            StripeCustomersCreate email',
            UserUpdateStripeCustomerId clerkId cus,
            UserFindUniqueByClerkId clerkId]\<rparr>)"
proof -
  have none: "find (\<lambda>u. clerk_id u = clerkId) (users w) = None"
    using absent by (simp add: find_None_iff)
  have none2: "find (\<lambda>u. stripe_customer_id u = Some cus \<and> clerk_id u \<noteq> clerkId) (users w) = None"
    using fresh by (auto simp: find_None_iff)
  have keep: "map (\<lambda>u. if clerk_id u = clerkId then u\<lparr>stripe_customer_id := Some cus\<rparr> else u)
                (users w) = users w"
    using absent by (simp add: map_idI)
  show ?thesis
    using none none2 keep ok
    by (simp add: getData_def user_findUnique_clerk_id_def user_create_def
        stripe_customers_create_def user_update_stripe_customer_id_def record_call_def
        Let_def find_app falsy_def)
qed

text \<open>Every run of provisioning reads the store at least once, so it always extends the call log.\<close>

lemma getData_records_call:
  "length (calls w) < length (calls (snd (getData provider email' clerkId firstName' lastName' profileImage w)))"
  by (auto simp: getData_def user_findUnique_clerk_id_def user_create_def
      stripe_customers_create_def user_update_stripe_customer_id_def record_call_def Let_def
      split: option.splits sum.splits prod.splits if_splits)

section \<open>Entitlement on the billing page\<close>

text \<open>
  C1. For a signed-in user, the billing page shows the manage-subscription branch exactly
  when the single Payment row it fetches (\<^verbatim>\<open>findFirst\<close> without a status filter: the first
  row, in the store's order, owned by that user) has status paid; otherwise it shows the
  offer to purchase. Hence entitlement implies that a paid row owned by the user exists,
  but a paid row that comes after an earlier row of the same user with another status
  does not grant it.
\<close>

theorem BillingPage_first_payment_decides:
  assumes "clerkId \<noteq> []"
  shows "fst (BillingPage (Some clerkId) w) =
           (if (\<exists>ps p qs. payments w = ps @ p # qs \<and> (\<forall>q\<in>set ps. \<not> owned_by w clerkId q) \<and>
                  owned_by w clerkId p \<and> status p = ''paid'')
            then ManageSubscription else OfferPurchase)
       \<and> (fst (BillingPage (Some clerkId) w) = ManageSubscription \<longrightarrow>
            (\<exists>p\<in>set (payments w). owned_by w clerkId p \<and> status p = ''paid''))"
proof (cases "find (owned_by w clerkId) (payments w)")
  case None
  then have no: "\<forall>p\<in>set (payments w). \<not> owned_by w clerkId p"
    by (simp add: find_None_iff)
  then have "\<not> (\<exists>ps p qs. payments w = ps @ p # qs \<and> (\<forall>q\<in>set ps. \<not> owned_by w clerkId q) \<and>
                  owned_by w clerkId p \<and> status p = ''paid'')"
    by auto
  with None assms show ?thesis
    by (simp add: BillingPage_def getData_billing_def payment_findFirst_clerk_id_def falsy_def)
next
  case (Some p0)
  then obtain ps qs where sp: "payments w = ps @ p0 # qs" "owned_by w clerkId p0"
      "\<forall>q\<in>set ps. \<not> owned_by w clerkId q"
    by (auto simp: find_Some_split)
  have uniq: "p = p0"
    if "payments w = ps' @ p # qs'" "\<forall>q\<in>set ps'. \<not> owned_by w clerkId q" "owned_by w clerkId p"
    for ps' p qs'
  proof -
    from that have "find (owned_by w clerkId) (payments w) = Some p"
      by (subst find_Some_split) blast
    with Some show ?thesis by simp
  qed
  have iff: "(\<exists>ps p qs. payments w = ps @ p # qs \<and> (\<forall>q\<in>set ps. \<not> owned_by w clerkId q) \<and>
                  owned_by w clerkId p \<and> status p = ''paid'') \<longleftrightarrow> status p0 = ''paid''"
    using sp uniq by blast
  have page: "fst (BillingPage (Some clerkId) w) =
                (if status p0 = ''paid'' then ManageSubscription else OfferPurchase)"
    using Some assms
    by (simp add: BillingPage_def getData_billing_def payment_findFirst_clerk_id_def falsy_def)
  have mem: "p0 \<in> set (payments w)" using sp(1) by simp
  show ?thesis
  proof (intro conjI impI)
    show "fst (BillingPage (Some clerkId) w) =
           (if (\<exists>ps p qs. payments w = ps @ p # qs \<and> (\<forall>q\<in>set ps. \<not> owned_by w clerkId q) \<and>
                  owned_by w clerkId p \<and> status p = ''paid'')
            then ManageSubscription else OfferPurchase)"
      by (simp only: page iff)
  next
    assume "fst (BillingPage (Some clerkId) w) = ManageSubscription"
    with page have "status p0 = ''paid''" by (simp split: if_splits)
    with mem sp(2) show "\<exists>p\<in>set (payments w). owned_by w clerkId p \<and> status p = ''paid''"
      by blast
  qed
qed

theorem BillingPage_first_payment_decides_witness:
  "fst (BillingPage (Some ''u_1'') (demo_world\<lparr>payments := [paid_row]\<rparr>)) = ManageSubscription"
proof -
  let ?w = "demo_world\<lparr>payments := [paid_row]\<rparr>"
  have ne: "''u_1'' \<noteq> []" by simp
  have own: "owned_by ?w ''u_1'' paid_row"
    by (simp add: owned_by_def payment_user_def demo_defs)
  have "payments ?w = [] @ paid_row # [] \<and> (\<forall>q\<in>set []. \<not> owned_by ?w ''u_1'' q) \<and>
        owned_by ?w ''u_1'' paid_row \<and> status paid_row = ''paid''"
    using own by (simp add: paid_row_def)
  then have ex: "\<exists>ps p qs. payments ?w = ps @ p # qs \<and> (\<forall>q\<in>set ps. \<not> owned_by ?w ''u_1'' q) \<and>
        owned_by ?w ''u_1'' p \<and> status p = ''paid''"
    by blast
  from BillingPage_first_payment_decides [OF ne, of ?w] ex show ?thesis by simp
qed

text \<open>
  C1 in its stronger form, that any paid row owned by the user is enough, fails on a
  store where the user's first row is unpaid and the second is paid: the page offers the
  purchase. Two webhook deliveries produce exactly this store.
\<close>

theorem BillingPage_paid_row_not_sufficient:
  "fst (BillingPage (Some ''u_1'') (demo_world\<lparr>payments := [unpaid_row, paid_row]\<rparr>)) = OfferPurchase
   \<and> paid_row \<in> set (payments (demo_world\<lparr>payments := [unpaid_row, paid_row]\<rparr>))
   \<and> owned_by (demo_world\<lparr>payments := [unpaid_row, paid_row]\<rparr>) ''u_1'' paid_row
   \<and> status paid_row = ''paid''"
  by (simp add: BillingPage_def getData_billing_def payment_findFirst_clerk_id_def falsy_def
      owned_by_def payment_user_def demo_defs)

lemma billing_counterexample_reachable:
  "users (snd (POST (accept \<lparr>event_type = ''checkout.session.completed'',
                data_object = demo_session\<lparr>payment_intent := Some ''pi_2''\<rparr>\<rparr>)
          id (Some ''whsec_1'') demo_request
          (snd (POST (accept \<lparr>event_type = ''checkout.session.completed'',
                  data_object = demo_session\<lparr>payment_status := ''unpaid''\<rparr>\<rparr>)
            id (Some ''whsec_1'') demo_request demo_world)))) = [demo_user]
   \<and> payments (snd (POST (accept \<lparr>event_type = ''checkout.session.completed'',
                data_object = demo_session\<lparr>payment_intent := Some ''pi_2''\<rparr>\<rparr>)
          id (Some ''whsec_1'') demo_request
          (snd (POST (accept \<lparr>event_type = ''checkout.session.completed'',
                  data_object = demo_session\<lparr>payment_status := ''unpaid''\<rparr>\<rparr>)
            id (Some ''whsec_1'') demo_request demo_world)))) = [unpaid_row, paid_row]"
  by (simp add: POST_def user_findUnique_stripe_customer_id_def payment_create_def
      record_call_def Let_def String_def nullish_def next_id_def demo_defs number_div_4000)

section \<open>Webhook: a completed one-time payment\<close>




section \<open>Webhook: signature verification failure\<close>

text \<open>
  C3. When reconstructing the event throws (for any body, signature header and secret),
  the webhook handler answers with status 400 and the state is exactly what it was: no
  Payment row, no other write, no call at all.
\<close>

theorem POST_invalid_signature:
  assumes "constructEvent (body req) (stripe_signature req) secret = None"
  shows "POST constructEvent toDecimal secret req w =
           (Inr \<lparr>response_body = Some ''Webhook error'', response_status = 400\<rparr>, w)"
  using assms by (simp add: POST_def)

theorem POST_invalid_signature_witness:
  "POST (\<lambda>b s k. None) id (Some ''whsec_1'') \<lparr>body = ''{}'', stripe_signature = Some ''t=1,v1=00''\<rparr>
     \<lparr>users = [], payments = [], calls = []\<rparr> =
   (Inr \<lparr>response_body = Some ''Webhook error'', response_status = 400\<rparr>,
    \<lparr>users = [], payments = [], calls = []\<rparr>)"
  using POST_invalid_signature
    [where constructEvent = "\<lambda>b s k. None"
      and req = "\<lparr>body = ''{}'', stripe_signature = Some ''t=1,v1=00''\<rparr>"
      and secret = "Some ''whsec_1''" and toDecimal = id
      and w = "\<lparr>users = [], payments = [], calls = []\<rparr>"]
  by simp

section \<open>Webhook: unknown customer\<close>

text \<open>
  C4. For a validly signed \<^verbatim>\<open>checkout.session.completed\<close> event in payment mode whose
  customer reference is no User's \<open>stripe_customer_id\<close>, the handler raises the error
  "User not found"; both tables are unchanged and the only call made is the lookup.
\<close>

theorem POST_unknown_customer_raises:
  assumes "constructEvent (body req) (stripe_signature req) secret = Some ev"
    and "event_type ev = ''checkout.session.completed''"
    and "mode (data_object ev) = Payment"
    and "\<forall>u\<in>set (users w). stripe_customer_id u \<noteq> Some (String (customer (data_object ev)))"
  shows "POST constructEvent toDecimal secret req w =
           (Inl (Error ''User not found''),
            w\<lparr>calls := calls w @
                [UserFindUniqueByStripeCustomerId (String (customer (data_object ev)))]\<rparr>)"
proof -
  from assms(4)
  have "find (\<lambda>u. stripe_customer_id u = Some (String (customer (data_object ev)))) (users w) = None"
    by (simp add: find_None_iff)
  with assms(1-3) show ?thesis
    by (simp add: POST_def user_findUnique_stripe_customer_id_def record_call_def Let_def)
qed

theorem POST_unknown_customer_raises_witness:
  "POST (accept \<lparr>event_type = ''checkout.session.completed'',
                 data_object = demo_session\<lparr>customer := Some ''cus_999''\<rparr>\<rparr>)
          id (Some ''whsec_1'') demo_request demo_world =
     (Inl (Error ''User not found''),
      demo_world\<lparr>calls := [UserFindUniqueByStripeCustomerId ''cus_999'']\<rparr>)"
  using POST_unknown_customer_raises
    [where constructEvent =
        "accept \<lparr>event_type = ''checkout.session.completed'',
                  data_object = demo_session\<lparr>customer := Some ''cus_999''\<rparr>\<rparr>"
      and req = demo_request and secret = "Some ''whsec_1''"
      and ev = "\<lparr>event_type = ''checkout.session.completed'',
          data_object = demo_session\<lparr>customer := Some ''cus_999''\<rparr>\<rparr>"
      and w = demo_world and toDecimal = id]
  by (simp add: demo_defs String_def)

section \<open>Provisioning: first visit\<close>

text \<open>
  C5. On a first visit (no User row has the subject id), when the provider creates the
  customer and returns an id that no stored row carries yet, provisioning makes six calls
  in this order: look up, create the User row (given email and name, empty billing
  reference), fetch it again, create the provider customer for the email, write its id
  onto the row selected by the subject id, fetch once more. Afterwards the table is the
  old one followed by a single row for the subject id, which carries the new reference.
\<close>

theorem getData_first_visit:
  assumes "\<forall>u\<in>set (users w). clerk_id u \<noteq> clerkId"
    and "provider email' = Inr cus"
    and "\<forall>u\<in>set (users w). stripe_customer_id u \<noteq> Some cus"
  shows "getData provider email' clerkId firstName' lastName' profileImage w =
     (Inr (),
      w\<lparr>users := users w @
           [\<lparr>user_id = next_id (map user_id (users w)), clerk_id = clerkId, email = email',
             name = nullish firstName' [] @ '' '' @ nullish lastName' [],
             stripe_customer_id = Some cus\<rparr>],
         calls := calls w @
           [UserFindUniqueByClerkId clerkId,
            UserCreate clerkId email' (nullish firstName' [] @ '' '' @ nullish lastName' []),
            UserFindUniqueByClerkId clerkId,
            StripeCustomersCreate email',
            UserUpdateStripeCustomerId clerkId cus,
            UserFindUniqueByClerkId clerkId]\<rparr>)
   \<and> users (snd (user_create clerkId email'
                    (nullish firstName' [] @ '' '' @ nullish lastName' [])
                    (snd (user_findUnique_clerk_id clerkId w)))) =
       users w @
         [\<lparr>user_id = next_id (map user_id (users w)), clerk_id = clerkId, email = email',
           name = nullish firstName' [] @ '' '' @ nullish lastName' [],
           stripe_customer_id = None\<rparr>]
   \<and> length (filter (\<lambda>u. clerk_id u = clerkId)
         (users (snd (getData provider email' clerkId firstName' lastName' profileImage w)))) = 1"
proof -
  have none: "find (\<lambda>u. clerk_id u = clerkId) (users w) = None"
    using assms(1) by (simp add: find_None_iff)
  have empty: "filter (\<lambda>u. clerk_id u = clerkId) (users w) = []"
    using assms(1) by (simp add: filter_empty_conv)
  have created: "users (snd (user_create clerkId email'
                    (nullish firstName' [] @ '' '' @ nullish lastName' [])
                    (snd (user_findUnique_clerk_id clerkId w)))) =
       users w @
         [\<lparr>user_id = next_id (map user_id (users w)), clerk_id = clerkId, email = email',
           name = nullish firstName' [] @ '' '' @ nullish lastName' [],
           stripe_customer_id = None\<rparr>]"
    using none by (simp add: user_create_def user_findUnique_clerk_id_def record_call_def Let_def)
  have step: "getData provider email' clerkId firstName' lastName' profileImage w =
     (Inr (),
      w\<lparr>users := users w @
           [\<lparr>user_id = next_id (map user_id (users w)), clerk_id = clerkId, email = email',
             name = nullish firstName' [] @ '' '' @ nullish lastName' [],
             stripe_customer_id = Some cus\<rparr>],
         calls := calls w @
           [UserFindUniqueByClerkId clerkId,
            UserCreate clerkId email' (nullish firstName' [] @ '' '' @ nullish lastName' []),
            UserFindUniqueByClerkId clerkId,
            StripeCustomersCreate email',
            UserUpdateStripeCustomerId clerkId cus,
            UserFindUniqueByClerkId clerkId]\<rparr>)"
    using assms by (rule getData_first_visit_step)
  have one: "length (filter (\<lambda>u. clerk_id u = clerkId)
         (users (snd (getData provider email' clerkId firstName' lastName' profileImage w)))) = 1"
    using empty by (simp add: step)
  from step created one show ?thesis by blast
qed

theorem getData_first_visit_witness:
  "getData (\<lambda>e. Inr ''cus_1'') ''a@b.com'' ''u_1'' (Some ''A'') (Some ''B'') None empty_world =
     (Inr (),
      \<lparr>users = [\<lparr>user_id = 1, clerk_id = ''u_1'', email = ''a@b.com'', name = ''A B'',
                 stripe_customer_id = Some ''cus_1''\<rparr>],
       payments = [],
       calls = [UserFindUniqueByClerkId ''u_1'', UserCreate ''u_1'' ''a@b.com'' ''A B'',
                UserFindUniqueByClerkId ''u_1'', StripeCustomersCreate ''a@b.com'',
                UserUpdateStripeCustomerId ''u_1'' ''cus_1'', UserFindUniqueByClerkId ''u_1'']\<rparr>)"
  using getData_first_visit
    [of empty_world "''u_1''" "\<lambda>e. Inr ''cus_1''" "''a@b.com''" "''cus_1''" "Some ''A''" "Some ''B''" None]
  by (simp add: empty_world_def nullish_def next_id_def)

section \<open>Provisioning: already provisioned\<close>

text \<open>
  C6. When the User row of the subject id exists and has a non-empty billing reference,
  provisioning succeeds having made one call only, the lookup: the provider is not called
  (whatever it would have answered) and both tables are unchanged.
\<close>

theorem getData_provisioned_noop:
  assumes "\<not> falsy (case find (\<lambda>u. clerk_id u = clerkId) (users w) of
                       None \<Rightarrow> None | Some u \<Rightarrow> stripe_customer_id u)"
  shows "getData provider email' clerkId firstName' lastName' profileImage w =
           (Inr (), w\<lparr>calls := calls w @ [UserFindUniqueByClerkId clerkId]\<rparr>)"
proof (cases "find (\<lambda>u. clerk_id u = clerkId) (users w)")
  case None
  with assms show ?thesis by (simp add: falsy_def)
next
  case (Some u)
  with assms show ?thesis
    by (simp add: getData_def user_findUnique_clerk_id_def record_call_def)
qed

theorem getData_provisioned_noop_witness:
  "getData (\<lambda>e. Inl (StripeError ''unreachable'')) ''a@b.com'' ''u_1'' (Some ''A'') (Some ''B'') None
     demo_world =
   (Inr (), demo_world\<lparr>calls := [UserFindUniqueByClerkId ''u_1'']\<rparr>)"
  using getData_provisioned_noop
    [of "''u_1''" demo_world "\<lambda>e. Inl (StripeError ''unreachable'')" "''a@b.com''" "Some ''A''" "Some ''B''" None]
  by (simp add: demo_world_def demo_user_def falsy_def)

section \<open>Provisioning: the provider call fails\<close>

text \<open>
  C7. When provisioning reaches the provider call (the row is missing or has no billing
  reference) and the call fails, the failure is the result of provisioning, no update of
  the billing reference is issued, and the row of the subject id has no billing reference
  afterwards. The User table is the old one, followed by the freshly created
  reference-less row when the user was new.
\<close>

theorem getData_provider_failure:
  assumes "provider email' = Inl e"
    and "falsy (case find (\<lambda>u. clerk_id u = clerkId) (users w) of
                  None \<Rightarrow> None | Some u \<Rightarrow> stripe_customer_id u)"
  shows "fst (getData provider email' clerkId firstName' lastName' profileImage w) = Inl e
   \<and> users (snd (getData provider email' clerkId firstName' lastName' profileImage w)) =
       (case find (\<lambda>u. clerk_id u = clerkId) (users w) of
          None \<Rightarrow> users w @
            [\<lparr>user_id = next_id (map user_id (users w)), clerk_id = clerkId, email = email',
              name = nullish firstName' [] @ '' '' @ nullish lastName' [],
              stripe_customer_id = None\<rparr>]
        | Some _ \<Rightarrow> users w)
   \<and> payments (snd (getData provider email' clerkId firstName' lastName' profileImage w)) =
       payments w
   \<and> calls (snd (getData provider email' clerkId firstName' lastName' profileImage w)) =
       calls w @
       (case find (\<lambda>u. clerk_id u = clerkId) (users w) of
          None \<Rightarrow>
            [UserFindUniqueByClerkId clerkId,
             UserCreate clerkId email' (nullish firstName' [] @ '' '' @ nullish lastName' []),
             UserFindUniqueByClerkId clerkId,
             StripeCustomersCreate email']
        | Some _ \<Rightarrow> [UserFindUniqueByClerkId clerkId, StripeCustomersCreate email'])
   \<and> (\<exists>u. find (\<lambda>u. clerk_id u = clerkId)
              (users (snd (getData provider email' clerkId firstName' lastName' profileImage w)))
            = Some u \<and> falsy (stripe_customer_id u))"
proof (cases "find (\<lambda>u. clerk_id u = clerkId) (users w)")
  case None
  with assms(1) show ?thesis
    by (simp add: getData_def user_findUnique_clerk_id_def user_create_def
        stripe_customers_create_def record_call_def Let_def find_app falsy_def)
next
  case (Some u)
  with assms show ?thesis
    by (simp add: getData_def user_findUnique_clerk_id_def
        stripe_customers_create_def record_call_def Let_def)
qed

theorem getData_provider_failure_witness:
  "fst (getData (\<lambda>e. Inl (StripeError ''api_connection_error'')) ''a@b.com'' ''u_1''
          (Some ''A'') (Some ''B'') None empty_world) =
     Inl (StripeError ''api_connection_error'')
   \<and> users (snd (getData (\<lambda>e. Inl (StripeError ''api_connection_error'')) ''a@b.com'' ''u_1''
          (Some ''A'') (Some ''B'') None empty_world)) =
     [\<lparr>user_id = 1, clerk_id = ''u_1'', email = ''a@b.com'', name = ''A B'',
       stripe_customer_id = None\<rparr>]"
  using getData_provider_failure
    [of "\<lambda>e. Inl (StripeError ''api_connection_error'')" "''a@b.com''"
        "StripeError ''api_connection_error''" "''u_1''" empty_world "Some ''A''" "Some ''B''" None]
  by (simp add: empty_world_def nullish_def next_id_def falsy_def)

section \<open>Webhook: events without effect, and the frame\<close>

text \<open>
  C8. A validly signed event that is not a \<^verbatim>\<open>checkout.session.completed\<close> in payment mode
  (subscription mode, \<^verbatim>\<open>invoice.payment_succeeded\<close>, any other kind) leaves the state
  exactly as it was and is answered with 200. For every delivery whatsoever the User table
  is unchanged and the Payment table is either unchanged or extended by one row.
\<close>

theorem POST_noop_events:
  "(\<forall>ev. constructEvent (body req) (stripe_signature req) secret = Some ev \<and>
         (event_type ev \<noteq> ''checkout.session.completed'' \<or> mode (data_object ev) \<noteq> Payment)
      \<longrightarrow> POST constructEvent toDecimal secret req w =
            (Inr \<lparr>response_body = None, response_status = 200\<rparr>, w))
   \<and> users (snd (POST constructEvent toDecimal secret req w)) = users w
   \<and> (payments (snd (POST constructEvent toDecimal secret req w)) = payments w \<or>
      (\<exists>p. payments (snd (POST constructEvent toDecimal secret req w)) = payments w @ [p]))"
proof -
  have "POST constructEvent toDecimal secret req w =
          (Inr \<lparr>response_body = None, response_status = 200\<rparr>, w)"
    if "constructEvent (body req) (stripe_signature req) secret = Some ev"
      and "event_type ev \<noteq> ''checkout.session.completed'' \<or> mode (data_object ev) \<noteq> Payment"
    for ev
    using that by (auto simp: POST_def Let_def)
  then show ?thesis using POST_store [of constructEvent toDecimal secret req w] by blast
qed

theorem POST_noop_events_witness:
  "POST (accept \<lparr>event_type = ''invoice.payment_succeeded'', data_object = demo_session\<rparr>)
          id (Some ''whsec_1'') demo_request demo_world =
     (Inr \<lparr>response_body = None, response_status = 200\<rparr>, demo_world)
   \<and> POST (accept \<lparr>event_type = ''checkout.session.completed'',
                   data_object = demo_session\<lparr>mode := Subscription\<rparr>\<rparr>)
          id (Some ''whsec_1'') demo_request demo_world =
     (Inr \<lparr>response_body = None, response_status = 200\<rparr>, demo_world)"
  using POST_noop_events
    [where constructEvent =
        "accept \<lparr>event_type = ''invoice.payment_succeeded'', data_object = demo_session\<rparr>"
      and req = demo_request and secret = "Some ''whsec_1''" and w = demo_world
      and toDecimal = id]
    POST_noop_events
    [where constructEvent =
        "accept \<lparr>event_type = ''checkout.session.completed'',
                  data_object = demo_session\<lparr>mode := Subscription\<rparr>\<rparr>"
      and req = demo_request and secret = "Some ''whsec_1''" and w = demo_world
      and toDecimal = id]
  by (simp add: accept_def demo_session_def)

section \<open>Protected area: no session, no email\<close>

text \<open>
  C9. Without a signed-in subject id, without an identity record, or when the identity
  record has no first email address (or an empty one), the layout redirects to \<^verbatim>\<open>/\<close> and
  the state is untouched: since provisioning always extends the call log, it was not run,
  and neither a User row nor a provider customer was created.
\<close>

theorem DashboardLayout_unauthenticated_redirect:
  assumes "falsy userId \<or> (case cuser of None \<Rightarrow> True | Some cu \<Rightarrow> falsy (primary_email cu))"
  shows "DashboardLayout provider userId cuser w = (Inr (Redirect ''/''), w)"
  using assms by (cases cuser) (auto simp: DashboardLayout_def Let_def)

theorem DashboardLayout_unauthenticated_redirect_witness:
  "DashboardLayout (\<lambda>e. Inr ''cus_1'') None None empty_world = (Inr (Redirect ''/''), empty_world)
   \<and> DashboardLayout (\<lambda>e. Inr ''cus_1'') (Some ''u_1'')
        (Some \<lparr>emailAddresses = [], firstName = Some ''A'', lastName = None,
               imageUrl = ''https://img''\<rparr>)
        empty_world = (Inr (Redirect ''/''), empty_world)"
  using DashboardLayout_unauthenticated_redirect [of None None "\<lambda>e. Inr ''cus_1''" empty_world]
    DashboardLayout_unauthenticated_redirect
    [of "Some ''u_1''"
        "Some \<lparr>emailAddresses = [], firstName = Some ''A'', lastName = None,
               imageUrl = ''https://img''\<rparr>"
        "\<lambda>e. Inr ''cus_1''" empty_world]
  by (simp add: falsy_def primary_email_def)

section \<open>Webhook: a session without amount_total\<close>




end
